theory Spec2Isabelle
  imports Main
begin

chapter \<open>A shallow embedding of the aggregation-pipeline builder\<close>

text \<open>
  The development follows the Python sources module by module: the values the builder
  handles, the two operators \<^verbatim>\<open>Last\<close> and \<^verbatim>\<open>IN\<close>, the stages
  \<^verbatim>\<open>BucketAuto\<close> and \<^verbatim>\<open>Lookup\<close>, the \<^verbatim>\<open>Pipeline\<close> class and the
  search stage \<^verbatim>\<open>SearchBase\<close>. All definitions come first, the theorems after them.
\<close>

section \<open>Python values\<close>

text \<open>
  The values that flow through the builder are JSON-like: \<^verbatim>\<open>None\<close>, booleans,
  integers, strings, lists and dictionaries. A dictionary is an association list in
  insertion order, as Python keeps it. Floats and datetimes are left out.

  \<open>PModel k st\<close> stands for an instance of one of the library's model classes: what the
  code ever reads of such an object is its \<^verbatim>\<open>statement\<close> property, so the instance
  is carried as the value \<open>st\<close> of that property; \<open>k\<close> records whether its class derives
  from \<^verbatim>\<open>Accumulator\<close>, which \<^verbatim>\<open>Last.convert_expression\<close> tests with
  \<^verbatim>\<open>isinstance\<close>.
\<close>

datatype model_kind = AccumulatorKind | OtherKind

datatype pyval =
    PNone
  | PBool bool
  | PInt int
  | PStr string
  | PList "pyval list"
  | PDict "(string \<times> pyval) list"
  | PModel model_kind pyval

type_synonym document = "(string \<times> pyval) list"

text \<open>
  Keyword arguments of a call, in call-site order. A field declared with an alias is
  populated from the alias first and from the field's own name otherwise (the sources
  call \<^verbatim>\<open>IN(expression = array)\<close> and \<^verbatim>\<open>Last(expression=expression)\<close>, by field name).
\<close>

type_synonym kwargs = "(string \<times> pyval) list"

definition kwarg :: "kwargs \<Rightarrow> string \<Rightarrow> string \<Rightarrow> pyval option" where
  "kwarg kws alias field_name =
     (case map_of kws alias of
        Some v \<Rightarrow> Some v
      | None \<Rightarrow> map_of kws field_name)"

text \<open>
  Modelled from the spec: \<^verbatim>\<open>resolve\<close> of \<^verbatim>\<open>monggregate.base\<close> is not among the
  sources. The spec describes it as the "recursive substitution of nested model-backed
  values into raw nested-document form": a value that exposes its own statement is
  replaced by that statement, every other value is kept, lists and dictionaries are
  walked in order and keep their keys.
\<close>

primrec resolve :: "pyval \<Rightarrow> pyval" where
  "resolve PNone = PNone"
| "resolve (PBool b) = PBool b"
| "resolve (PInt n) = PInt n"
| "resolve (PStr s) = PStr s"
| "resolve (PList xs) = PList (map resolve xs)"
| "resolve (PDict kvs) = PDict (map (map_prod id resolve) kvs)"
| "resolve (PModel k st) = st"

text \<open>A value is raw when no model instance occurs anywhere inside it.\<close>

fun raw :: "pyval \<Rightarrow> bool" where
  "raw (PList xs) = list_all raw xs"
| "raw (PDict kvs) = list_all (\<lambda>kv. raw (snd kv)) kvs"
| "raw (PModel k st) = False"
| "raw v = True"

section \<open>Search operators and errors\<close>

text \<open>
  Objects that the search stage mutates in place live in a store and are named by
  references. The operator classes themselves (\<^verbatim>\<open>monggregate.search.operators\<close>) are
  not among the sources, only their names are imported by \<^verbatim>\<open>base.py\<close>: an operator
  other than \<^verbatim>\<open>Compound\<close> is carried with the keyword arguments it was built from, a
  \<^verbatim>\<open>Compound\<close> with its four clause lists (references to the nested operators, in
  insertion order) and its minimum-should-match count.
\<close>

type_synonym ref = nat

datatype clause_type = Must | MustNot | Should | Filter

datatype any_operator =
    Autocomplete kwargs
  | Compound (must: "ref list") (must_not: "ref list") (should: "ref list")
      (filter_clauses: "ref list") (compound_minimum_should_match: int)
  | Equals kwargs
  | Exists kwargs
  | MoreLikeThis kwargs
  | Range kwargs
  | Regex kwargs
  | Text kwargs
  | Wildcard kwargs

text \<open>
  An exception message is either a literal or an f-string with one interpolated
  operator: \<open>Format p x\<close> is \<^verbatim>\<open>f"{p}{x}"\<close>, where \<open>x\<close> is the operator object as it was
  when the message was built (\<open>None\<close> for Python's \<^verbatim>\<open>None\<close>). How the object prints is
  the business of its class and is not modelled.
\<close>

datatype message = Literal string | Format string "any_operator option"

text \<open>
  The exceptions the sources raise. A failed construction reports one message per
  offending field, in field order; an exception raised inside a validator is reported
  the same way. \<open>ExecutionError\<close> is whatever the database driver raises.
\<close>

datatype error =
    ValidationError "message list"
  | TypeError message
  | AttributeError string
  | ExecutionError string

text \<open>What a failed construction reports of an exception raised inside a validator.\<close>

definition reported :: "error \<Rightarrow> message list" where
  "reported e =
     (case e of
        ValidationError ms \<Rightarrow> ms
      | TypeError m \<Rightarrow> [m]
      | AttributeError s \<Rightarrow> [Literal s]
      | ExecutionError s \<Rightarrow> [Literal s])"

section \<open>The accumulator operator \<^verbatim>\<open>Last\<close> (operators/accumulators/last.py)\<close>

record last_op =
  expression :: pyval

definition convert_expression :: "pyval \<Rightarrow> pyval" where
  "convert_expression e =
     (case e of
        PModel k st \<Rightarrow> (if k = AccumulatorKind then st else e)
      | _ \<Rightarrow> e)"

text \<open>
  \<^verbatim>\<open>Last(expression=...)\<close>. The field is required; the pre-validator runs on the value
  supplied. The type \<^verbatim>\<open>Expression\<close> is not among the sources and admits every value here.
\<close>

definition construct_Last :: "pyval option \<Rightarrow> error + last_op" where
  "construct_Last arg =
     (case arg of
        None \<Rightarrow> Inl (ValidationError [Literal ''expression: field required''])
      | Some e \<Rightarrow> Inr \<lparr>expression = convert_expression e\<rparr>)"

definition Last_statement :: "last_op \<Rightarrow> pyval" where
  "Last_statement self = PDict [(''$push'', last_op.expression self)]"

text \<open>
  The wire name of the operator the module wraps: its docstring reads "Module defining
  an interface to MongoDB $last accumulator operator".
\<close>

definition Last_wire_name :: string where
  "Last_wire_name = ''$last''"

section \<open>The array operator \<^verbatim>\<open>IN\<close> (operators/array/in\_.py)\<close>

record in_op =
  expression :: pyval
  array :: pyval

text \<open>
  \<^verbatim>\<open>IN(**kws)\<close>: \<^verbatim>\<open>expression\<close> has the alias \<^verbatim>\<open>n\<close> and the default 1,
  \<^verbatim>\<open>array\<close> has the alias \<^verbatim>\<open>input\<close> and no default.
\<close>

definition construct_IN :: "kwargs \<Rightarrow> error + in_op" where
  "construct_IN kws =
     (case kwarg kws ''input'' ''array'' of
        None \<Rightarrow> Inl (ValidationError [Literal ''input: field required''])
      | Some a \<Rightarrow>
          Inr \<lparr>expression = (case kwarg kws ''n'' ''expression'' of None \<Rightarrow> PInt 1 | Some e \<Rightarrow> e),
               array = a\<rparr>)"

definition IN_statement :: "in_op \<Rightarrow> pyval" where
  "IN_statement self = PDict [(''$in'', PList [in_op.expression self, in_op.array self])]"

section \<open>The stage \<^verbatim>\<open>BucketAuto\<close> (stages/bucket\_auto.py)\<close>

text \<open>The member \<^verbatim>\<open>_1_2_5\<close> is written \<open>S_1_2_5\<close>: a name cannot start with an underscore.\<close>

datatype GranularityEnum =
    R5 | R10 | R20 | R40 | R80 | S_1_2_5
  | E6 | E12 | E24 | E48 | E96 | E192 | POWERSOF2

fun GranularityEnum_value :: "GranularityEnum \<Rightarrow> string" where
  "GranularityEnum_value R5 = ''R5''"
| "GranularityEnum_value R10 = ''R10''"
| "GranularityEnum_value R20 = ''R20''"
| "GranularityEnum_value R40 = ''R40''"
| "GranularityEnum_value R80 = ''R80''"
| "GranularityEnum_value S_1_2_5 = ''1-2-5''"
| "GranularityEnum_value E6 = ''E6''"
| "GranularityEnum_value E12 = ''E12''"
| "GranularityEnum_value E24 = ''E24''"
| "GranularityEnum_value E48 = ''E48''"
| "GranularityEnum_value E96 = ''E96''"
| "GranularityEnum_value E192 = ''E192''"
| "GranularityEnum_value POWERSOF2 = ''POWERSOF2''"

text \<open>
  The attribute \<^verbatim>\<open>by\<close> is named by its alias \<open>group_by\<close> here (\<open>by\<close> is a keyword),
  and the attribute \<^verbatim>\<open>output\<close> is named \<open>output_fields\<close> for the same reason.
  \<^verbatim>\<open>FieldName\<close> and \<^verbatim>\<open>AccumulatorExpression\<close> are not among the sources: the output
  is any dictionary.
\<close>

record bucket_auto =
  group_by :: pyval
  buckets :: int
  output_fields :: "document option"
  granularity :: "GranularityEnum option"

text \<open>
  \<^verbatim>\<open>BucketAuto(by=..., buckets=..., output=..., granularity=...)\<close>, an argument being
  \<open>None\<close> when the caller leaves it out. \<^verbatim>\<open>validate_field_path\<close> of
  \<^verbatim>\<open>monggregate.utils\<close> is not among the sources and is a parameter: it returns the
  validated value or the message it raises with. \<^verbatim>\<open>by\<close> and \<^verbatim>\<open>buckets\<close> are required,
  \<^verbatim>\<open>buckets\<close> is declared with \<^verbatim>\<open>gt=0\<close>.
\<close>

definition construct_BucketAuto ::
  "(pyval \<Rightarrow> string + pyval) \<Rightarrow> pyval option \<Rightarrow> int option \<Rightarrow> document option \<Rightarrow>
     GranularityEnum option \<Rightarrow> error + bucket_auto" where
  "construct_BucketAuto validate_field_path by_arg buckets_arg output_arg granularity_arg =
     (let by_checked =
            (case by_arg of
               None \<Rightarrow> Inl [Literal ''group_by: field required'']
             | Some v \<Rightarrow>
                 (case validate_field_path v of
                    Inl msg \<Rightarrow> Inl [Literal msg]
                  | Inr v' \<Rightarrow> Inr v'));
          buckets_checked =
            (case buckets_arg of
               None \<Rightarrow> Inl [Literal ''buckets: field required'']
             | Some n \<Rightarrow>
                 (if n > 0 then Inr n
                  else Inl [Literal ''buckets: ensure this value is greater than 0'']))
      in case (by_checked, buckets_checked) of
           (Inr b, Inr n) \<Rightarrow>
             Inr \<lparr>group_by = b, buckets = n, output_fields = output_arg, granularity = granularity_arg\<rparr>
         | (Inl e1, Inr n) \<Rightarrow> Inl (ValidationError e1)
         | (Inr b, Inl e2) \<Rightarrow> Inl (ValidationError e2)
         | (Inl e1, Inl e2) \<Rightarrow> Inl (ValidationError (e1 @ e2)))"

text \<open>
  The property \<^verbatim>\<open>statement\<close>. Every member of \<^verbatim>\<open>GranularityEnum\<close> is a non-empty
  string and therefore true in the test \<^verbatim>\<open>if self.granularity\<close>.
\<close>

definition BucketAuto_statement :: "bucket_auto \<Rightarrow> pyval" where
  "BucketAuto_statement self =
     resolve (PDict [(''$bucketAuto'', PDict [
        (''groupBy'', group_by self),
        (''buckets'', PInt (buckets self)),
        (''output'', (case output_fields self of None \<Rightarrow> PNone | Some d \<Rightarrow> PDict d)),
        (''granularity'',
           (case granularity self of
              Some g \<Rightarrow> PStr (GranularityEnum_value g)
            | None \<Rightarrow> PNone))])])"

text \<open>Reading a key of a compiled dictionary (\<open>None\<close> when the value is no dictionary).\<close>

definition dict_get :: "pyval \<Rightarrow> string \<Rightarrow> pyval option" where
  "dict_get d k = (case d of PDict kvs \<Rightarrow> map_of kvs k | _ \<Rightarrow> None)"

definition dict_keys :: "pyval \<Rightarrow> string list" where
  "dict_keys d = (case d of PDict kvs \<Rightarrow> map fst kvs | _ \<Rightarrow> [])"

text \<open>The \<^verbatim>\<open>output\<close> entry of the compiled stage: \<^verbatim>\<open>statement["$bucketAuto"]["output"]\<close>.\<close>

definition compiled_output :: "bucket_auto \<Rightarrow> pyval option" where
  "compiled_output self =
     (case dict_get (BucketAuto_statement self) ''$bucketAuto'' of
        Some body \<Rightarrow> dict_get body ''output''
      | None \<Rightarrow> None)"

section \<open>Arguments of a constructor\<close>

text \<open>
  An argument of a constructor call is left out, passed as \<^verbatim>\<open>None\<close>, or passed with a
  value of the type the field is declared with. Values of another type are not
  arguments here: what the validation library makes of them (it converts some and
  refuses others) is not part of these sources.
\<close>

datatype 'a arg = Missing | NoneGiven | Given 'a

text \<open>
  What the validation reports for a field that has no default and does not admit
  \<^verbatim>\<open>None\<close>.
\<close>

definition field_errors :: "string \<Rightarrow> 'a arg \<Rightarrow> message list" where
  "field_errors field_name a =
     (case a of
        Missing \<Rightarrow> [Literal (field_name @ '': field required'')]
      | NoneGiven \<Rightarrow> [Literal (field_name @ '': none is not an allowed value'')]
      | Given v \<Rightarrow> [])"

section \<open>The stage \<^verbatim>\<open>Lookup\<close> (app/stages/lookup.py)\<close>

text \<open>
  The class declares six fields, all without a default, and nothing else: no validator
  and no \<^verbatim>\<open>statement\<close>. The attribute \<^verbatim>\<open>let\<close> is named \<open>let_vars\<close> here (\<open>let\<close> is a
  keyword).
\<close>

record lookup =
  right :: string
  left_on :: string
  right_on :: string
  name :: string
  let_vars :: document
  pipeline :: "document list"

text \<open>
  \<^verbatim>\<open>Lookup(from=..., local_field=..., foreign_field=..., as=..., let=..., pipeline=...)\<close>.

  The base class \<^verbatim>\<open>Stage\<close> (\<^verbatim>\<open>app.stages.stage\<close>) is not among the sources, and
  \<^verbatim>\<open>Lookup\<close> defines no \<^verbatim>\<open>statement\<close> of its own. What the base class does to the
  construction of such a subclass is the parameter \<open>Stage_refuses\<close>: \<open>None\<close> when it
  lets the construction go on to the validation of the six fields, \<open>Some e\<close> when it
  refuses the instance with the exception \<open>e\<close>, whatever the arguments (as a base class
  that leaves \<^verbatim>\<open>statement\<close> abstract does).
\<close>

definition construct_Lookup ::
  "error option \<Rightarrow> string arg \<Rightarrow> string arg \<Rightarrow> string arg \<Rightarrow> string arg \<Rightarrow>
     document arg \<Rightarrow> document list arg \<Rightarrow> error + lookup" where
  "construct_Lookup Stage_refuses from_arg local_field foreign_field as_arg let_arg pipeline_arg =
     (case Stage_refuses of
        Some e \<Rightarrow> Inl e
      | None \<Rightarrow>
          (case (from_arg, local_field, foreign_field, as_arg, let_arg, pipeline_arg) of
             (Given r, Given l, Given f, Given n, Given v, Given p) \<Rightarrow>
                Inr \<lparr>right = r, left_on = l, right_on = f, name = n, let_vars = v, pipeline = p\<rparr>
           | _ \<Rightarrow>
                Inl (ValidationError
                  (field_errors ''from'' from_arg @ field_errors ''local_field'' local_field @
                   field_errors ''foreign_field'' foreign_field @ field_errors ''as'' as_arg @
                   field_errors ''let'' let_arg @ field_errors ''pipeline'' pipeline_arg))))"

text \<open>
  The stage kinds the module's docstring says \<^verbatim>\<open>$lookup\<close> cannot hold in its pipeline
  ("Cannot include $out or $merge"): a stage document is keyed by its stage kind.
\<close>

definition forbidden_stage :: "document \<Rightarrow> bool" where
  "forbidden_stage stage = list_ex (\<lambda>kv. fst kv = ''$out'' \<or> fst kv = ''$merge'') stage"

definition contains_forbidden_stage :: "document list \<Rightarrow> bool" where
  "contains_forbidden_stage sub_pipeline = list_ex forbidden_stage sub_pipeline"

text \<open>
  An exception of the kind a base class with an abstract \<^verbatim>\<open>statement\<close> raises when
  \<^verbatim>\<open>Lookup\<close> is instantiated (the interpreter's wording of the message varies).
\<close>

definition abstract_statement :: error where
  "abstract_statement =
     TypeError (Literal ''abstract class Lookup with abstract method statement'')"

section \<open>The class \<^verbatim>\<open>Pipeline\<close> (app/pipeline.py)\<close>

datatype OnCallEnum = RUN | EXPORT

text \<open>
  \<^verbatim>\<open>Stage\<close> and its subclasses are imported from \<^verbatim>\<open>app.stages\<close>, which is not
  among the sources: the stage type is a parameter, and so is what calling a stage
  does (\<open>call\<close> below). By its annotation the call returns a dictionary; as any method
  call it may change the stage object, so \<open>call\<close> returns the dictionary together with
  the stage as the call left it.

  \<^verbatim>\<open>_db\<close> is the field \<open>db\<close>; the database type is a parameter. The class sets
  \<^verbatim>\<open>underscore_attrs_are_private\<close> and declares \<^verbatim>\<open>_db\<close> by an annotation alone, with
  no default: it is a private attribute, not a field, and stays unset until something
  is assigned to it. \<open>Unset\<close> is that state; \<open>Assigned None\<close> and \<open>Assigned (Some d)\<close>
  are the attribute after \<^verbatim>\<open>pipeline._db = None\<close> and \<^verbatim>\<open>pipeline._db = d\<close>.
\<close>

datatype 'db private_attr = Unset | Assigned "'db option"

record ('stage, 'db) pipeline_obj =
  db :: "'db private_attr"
  on_call :: OnCallEnum
  collection :: string
  stages :: "'stage list"

text \<open>
  \<^verbatim>\<open>Pipeline(_db=..., on_call=..., collection=..., stages=...)\<close>. The keyword \<^verbatim>\<open>_db\<close> names
  no field: the constructor ignores it, and the private attribute is left unset.
  \<^verbatim>\<open>on_call\<close> defaults to export and \<^verbatim>\<open>stages\<close> to the empty list; \<^verbatim>\<open>collection\<close> is
  required.
\<close>

definition construct_Pipeline ::
  "'db arg \<Rightarrow> OnCallEnum arg \<Rightarrow> string arg \<Rightarrow> 'stage list arg \<Rightarrow>
     error + ('stage, 'db) pipeline_obj" where
  "construct_Pipeline db_arg on_call_arg collection_arg stages_arg =
     (let errors =
            (case on_call_arg of
               NoneGiven \<Rightarrow> [Literal ''on_call: none is not an allowed value'']
             | _ \<Rightarrow> []) @
            field_errors ''collection'' collection_arg @
            (case stages_arg of
               NoneGiven \<Rightarrow> [Literal ''stages: none is not an allowed value'']
             | _ \<Rightarrow> [])
      in case collection_arg of
           Given c \<Rightarrow>
             (if errors = [] then
                Inr \<lparr>db = Unset,
                     on_call = (case on_call_arg of Given oc \<Rightarrow> oc | _ \<Rightarrow> EXPORT),
                     collection = c,
                     stages = (case stages_arg of Given sts \<Rightarrow> sts | _ \<Rightarrow> [])\<rparr>
              else Inl (ValidationError errors))
         | _ \<Rightarrow> Inl (ValidationError errors))"

text \<open>The assignment \<^verbatim>\<open>pipeline._db = v\<close>.\<close>

definition assign_db ::
  "'db option \<Rightarrow> ('stage, 'db) pipeline_obj \<Rightarrow> ('stage, 'db) pipeline_obj" where
  "assign_db v self = self\<lparr>db := Assigned v\<rparr>"

text \<open>
  Reading \<^verbatim>\<open>self._db\<close>: an unset attribute raises \<^verbatim>\<open>AttributeError\<close>, with the
  interpreter's message, which names the attribute.
\<close>

definition read_db :: "('stage, 'db) pipeline_obj \<Rightarrow> error + 'db option" where
  "read_db self =
     (case db self of
        Unset \<Rightarrow> Inl (AttributeError ''_db'')
      | Assigned v \<Rightarrow> Inr v)"

text \<open>
  The loop of \<^verbatim>\<open>export\<close>: the local list starts empty and receives \<^verbatim>\<open>stage()\<close> for
  each stage in turn. The loop returns the local list and the stages as the calls left
  them.
\<close>

fun export_loop ::
  "('stage \<Rightarrow> pyval \<times> 'stage) \<Rightarrow> 'stage list \<Rightarrow> pyval list \<Rightarrow> pyval list \<times> 'stage list" where
  "export_loop call [] out = (out, [])"
| "export_loop call (stage # rest) out =
     (case call stage of
        (d, stage1) \<Rightarrow>
          (case export_loop call rest (out @ [d]) of
             (out1, rest1) \<Rightarrow> (out1, stage1 # rest1)))"

text \<open>
  The methods take the pipeline object and return it with their result, so that what
  they do to the object is part of what is proved about them.
\<close>

definition export ::
  "('stage \<Rightarrow> pyval \<times> 'stage) \<Rightarrow> ('stage, 'db) pipeline_obj \<Rightarrow>
     pyval list \<times> ('stage, 'db) pipeline_obj" where
  "export call self =
     (case export_loop call (stages self) [] of
        (out, stages1) \<Rightarrow> (out, self\<lparr>stages := stages1\<rparr>))"

text \<open>
  \<open>aggregate d c sts\<close> is \<^verbatim>\<open>list(d[c].aggregate(pipeline=sts))\<close>, the call into the
  database driver. \<^verbatim>\<open>run\<close> exports first and reads \<^verbatim>\<open>self._db\<close> after.
\<close>

definition run ::
  "('stage \<Rightarrow> pyval \<times> 'stage) \<Rightarrow> ('db \<Rightarrow> string \<Rightarrow> pyval list \<Rightarrow> error + pyval list) \<Rightarrow>
     ('stage, 'db) pipeline_obj \<Rightarrow> (error + pyval list) \<times> ('stage, 'db) pipeline_obj" where
  "run call aggregate self =
     (case export call self of
        (sts, self1) \<Rightarrow>
          (case read_db self1 of
             Inl e \<Rightarrow> (Inl e, self1)
           | Inr (Some d) \<Rightarrow> (aggregate d (collection self1) sts, self1)
           | Inr None \<Rightarrow>
               (Inl (AttributeError ''run is not available when no database is provided''),
                self1)))"

definition Pipeline_call ::
  "('stage \<Rightarrow> pyval \<times> 'stage) \<Rightarrow> ('db \<Rightarrow> string \<Rightarrow> pyval list \<Rightarrow> error + pyval list) \<Rightarrow>
     ('stage, 'db) pipeline_obj \<Rightarrow> (error + pyval list) \<times> ('stage, 'db) pipeline_obj" where
  "Pipeline_call call aggregate self =
     (case on_call self of
        EXPORT \<Rightarrow> (case export call self of (sts, self1) \<Rightarrow> (Inr sts, self1))
      | RUN \<Rightarrow> run call aggregate self)"

text \<open>
  Modelled from the spec: \<^verbatim>\<open>Stage\<close> and \<^verbatim>\<open>Stage.__call__\<close> (\<^verbatim>\<open>app.stages.stage\<close>) are
  not among the sources. The spec describes a stage as "a state-free record" whose
  \<^verbatim>\<open>compile()\<close> "returns \<^verbatim>\<open>{stageWireName: bodyDocument}\<close>", and compilation as "a
  read-only traversal with no caching" in which a nested model-backed value is replaced
  by its statement: calling a stage returns the single-key document, resolved, and
  leaves the stage as it is.
\<close>

record stage_obj =
  wire_name :: string
  body :: pyval

definition Stage_call :: "stage_obj \<Rightarrow> pyval \<times> stage_obj" where
  "Stage_call self = (resolve (PDict [(wire_name self, body self)]), self)"

section \<open>The search stage \<^verbatim>\<open>SearchBase\<close> (stages/search/base.py)\<close>

subsection \<open>Objects and the store\<close>

text \<open>
  The collector class \<^verbatim>\<open>Facet\<close> is not among the sources and is carried with the
  keyword arguments it was built from.
\<close>

datatype facet = Facet kwargs

record search_config =
  index :: string
  count :: "document option"
  highlight :: "document option"
  return_stored_source :: bool
  score_details :: bool

record search_base = search_config +
  collector :: "facet option"
  operator :: "ref option"
  minimum_should_match :: int

datatype obj = StageObj search_base | OperatorObj any_operator

text \<open>
  The store is the list of the objects allocated so far; a reference is an index into
  it. A new object goes to the end, so its reference is the length of the store before.
\<close>

type_synonym store = "obj list"

definition deref :: "store \<Rightarrow> ref \<Rightarrow> obj option" where
  "deref st r = (if r < length st then Some (st ! r) else None)"

definition alloc :: "store \<Rightarrow> obj \<Rightarrow> ref \<times> store" where
  "alloc st ob = (length st, st @ [ob])"

subsection \<open>Construction\<close>

text \<open>
  The dictionary \<^verbatim>\<open>values\<close> that the validators receive. For each key the validators
  look at, the entry is \<open>None\<close> when the key is absent, \<open>Some None\<close> when it is present
  with the value \<^verbatim>\<open>None\<close> and \<open>Some (Some v)\<close> otherwise. The five fields of
  \<^verbatim>\<open>SearchConfig\<close> are validated on their own, before these, and are carried validated.
\<close>

record search_values =
  config_values :: search_config
  collector_value :: "facet option option"
  operator_value :: "ref option option"
  minimum_should_match_value :: "int option option"
  minimumShouldMatch_value :: "int option option"

definition has_key :: "'a option option \<Rightarrow> bool" where
  "has_key entry = (case entry of None \<Rightarrow> False | Some v \<Rightarrow> True)"

definition values_get :: "'a option option \<Rightarrow> 'a option" where
  "values_get entry = (case entry of None \<Rightarrow> None | Some v \<Rightarrow> v)"

text \<open>Python's \<^verbatim>\<open>a or b\<close> on optional integers: \<^verbatim>\<open>None\<close> and 0 are false.\<close>

definition py_or :: "int option \<Rightarrow> int option \<Rightarrow> int option" where
  "py_or a b = (case a of None \<Rightarrow> b | Some n \<Rightarrow> (if n = 0 then b else a))"

text \<open>
  The root validator \<^verbatim>\<open>init\<close>; \<open>init_minimum_should_match\<close> is the count it computes
  from the two spellings of the key. \<^verbatim>\<open>Compound(minimum_should_match=n)\<close> allocates a
  compound operator whose clause lists are empty.
\<close>

definition init_minimum_should_match :: "search_values \<Rightarrow> int" where
  "init_minimum_should_match vals =
     (let msm = py_or (values_get (minimum_should_match_value vals))
                      (values_get (minimumShouldMatch_value vals))
      in case msm of None \<Rightarrow> 0 | Some n \<Rightarrow> n)"

definition init :: "store \<Rightarrow> search_values \<Rightarrow> search_values \<times> store" where
  "init st vals =
     (if \<not> has_key (collector_value vals) \<and> \<not> has_key (operator_value vals) then
        (case alloc st (OperatorObj (Compound [] [] [] [] (init_minimum_should_match vals))) of
           (r, st1) \<Rightarrow> (vals\<lparr>operator_value := Some (Some r)\<rparr>, st1))
      else (vals, st))"

text \<open>
  The field validator \<^verbatim>\<open>validate_operator\<close>: \<open>val\<close> is the operator supplied,
  \<open>vals\<close> holds the fields validated before it, the collector among them. A collector
  and an operator are objects, true in a boolean test.
\<close>

definition validate_operator :: "ref option \<Rightarrow> search_values \<Rightarrow> error + ref option" where
  "validate_operator val vals =
     (let collector = values_get (collector_value vals)
      in if collector = None \<and> val = None then
           Inl (TypeError (Literal ''Either collector or operator must be provided''))
         else if collector \<noteq> None \<and> val \<noteq> None then
           Inl (TypeError (Literal ''Only one of collector or operator can be provided''))
         else Inr val)"

text \<open>
  \<^verbatim>\<open>SearchBase(**values)\<close>: the root validator, then the fields in the order of their
  declaration. The operator must be an operator object; \<^verbatim>\<open>minimum_should_match\<close> is
  an integer with the default 0. The new stage is allocated in the store.
\<close>

definition construct_SearchBase :: "store \<Rightarrow> search_values \<Rightarrow> error + (ref \<times> store)" where
  "construct_SearchBase st vals =
     (case init st vals of
        (vals1, st1) \<Rightarrow>
          (let operator_checked =
                 (case validate_operator (values_get (operator_value vals1)) vals1 of
                    Inl e \<Rightarrow> Inl (reported e)
                  | Inr None \<Rightarrow> Inr None
                  | Inr (Some r) \<Rightarrow>
                      (case deref st1 r of
                         Some (OperatorObj op) \<Rightarrow> Inr (Some r)
                       | _ \<Rightarrow> Inl [Literal ''operator: not an operator'']));
               msm_checked =
                 (case minimum_should_match_value vals1 of
                    None \<Rightarrow> Inr 0
                  | Some None \<Rightarrow> Inl [Literal ''minimum_should_match: none is not an allowed value'']
                  | Some (Some n) \<Rightarrow> Inr n)
           in case (operator_checked, msm_checked) of
                (Inr op, Inr n) \<Rightarrow>
                  Inr (alloc st1 (StageObj (search_config.extend (config_values vals1)
                    (search_base.fields (values_get (collector_value vals1)) op n))))
              | (Inl e1, Inr n) \<Rightarrow> Inl (ValidationError e1)
              | (Inr op, Inl e2) \<Rightarrow> Inl (ValidationError e2)
              | (Inl e1, Inl e2) \<Rightarrow> Inl (ValidationError (e1 @ e2))))"

subsection \<open>The clause helpers\<close>

text \<open>
  \<^verbatim>\<open>self.operator\<close> read through the store: the reference and the object, \<open>None\<close> when
  the attribute is \<^verbatim>\<open>None\<close>.
\<close>

definition current_operator :: "store \<Rightarrow> ref \<Rightarrow> (ref \<times> any_operator) option" where
  "current_operator st self =
     (case deref st self of
        Some (StageObj s) \<Rightarrow>
          (case operator s of
             None \<Rightarrow> None
           | Some r \<Rightarrow>
               (case deref st r of
                  Some (OperatorObj op) \<Rightarrow> Some (r, op)
                | _ \<Rightarrow> None))
      | _ \<Rightarrow> None)"

text \<open>\<^verbatim>\<open>isinstance(op, Compound)\<close>.\<close>

definition isinstance_Compound :: "any_operator \<Rightarrow> bool" where
  "isinstance_Compound op = (case op of Compound m mn s f k \<Rightarrow> True | _ \<Rightarrow> False)"

text \<open>
  Modelled from the spec: the methods of \<^verbatim>\<open>Compound\<close> that the helpers call
  (\<^verbatim>\<open>Compound.equals\<close>, \<^verbatim>\<open>Compound.compound\<close> and the others, in
  \<^verbatim>\<open>monggregate.search.operators.compound\<close>) are not among the sources. The spec
  describes them as "add an equals clause of type X" on "named clause groups
  (must/should/mustNot/filter), each holding an ordered list of sub-operators",
  "preserving per-clause insertion order": the new operator is built, allocated and
  appended to the clause list that \<open>ty\<close> names; its reference is returned.
\<close>

definition register_clause :: "clause_type \<Rightarrow> ref \<Rightarrow> any_operator \<Rightarrow> any_operator" where
  "register_clause ty r op =
     (case op of
        Compound m mn s f k \<Rightarrow>
          (case ty of
             Must \<Rightarrow> Compound (m @ [r]) mn s f k
           | MustNot \<Rightarrow> Compound m (mn @ [r]) s f k
           | Should \<Rightarrow> Compound m mn (s @ [r]) f k
           | Filter \<Rightarrow> Compound m mn s (f @ [r]) k)
      | _ \<Rightarrow> op)"

definition Compound_add :: "store \<Rightarrow> ref \<Rightarrow> clause_type \<Rightarrow> any_operator \<Rightarrow> ref \<times> store" where
  "Compound_add st c ty new_op =
     (case alloc st (OperatorObj new_op) of
        (r, st1) \<Rightarrow>
          (case deref st1 c of
             Some (OperatorObj op) \<Rightarrow> (r, st1[c := OperatorObj (register_clause ty r op)])
           | _ \<Rightarrow> (r, st1)))"

text \<open>
  The seven clause helpers of \<^verbatim>\<open>SearchBase\<close> share one body: when the current
  operator is a \<^verbatim>\<open>Compound\<close>, its method of the same name is called with the
  arguments and \<^verbatim>\<open>self\<close> is returned; otherwise \<^verbatim>\<open>TypeError\<close> is raised with the
  f-string \<^verbatim>\<open>f"Cannot call <method> on {self.operator}"\<close>.
\<close>

definition clause_helper ::
  "string \<Rightarrow> any_operator \<Rightarrow> store \<Rightarrow> ref \<Rightarrow> clause_type \<Rightarrow> error + (ref \<times> store)" where
  "clause_helper method new_op st self ty =
     (case current_operator st self of
        None \<Rightarrow> Inl (TypeError (Format (''Cannot call '' @ method @ '' on '') None))
      | Some (c, op) \<Rightarrow>
          (if isinstance_Compound op then
             (case Compound_add st c ty new_op of (r, st1) \<Rightarrow> Inr (self, st1))
           else Inl (TypeError (Format (''Cannot call '' @ method @ '' on '') (Some op)))))"

definition SearchBase_autocomplete ::
  "store \<Rightarrow> ref \<Rightarrow> clause_type \<Rightarrow> pyval \<Rightarrow> pyval \<Rightarrow> pyval \<Rightarrow> pyval \<Rightarrow> pyval \<Rightarrow>
     error + (ref \<times> store)" where
  "SearchBase_autocomplete st self ty query path token_order fuzzy score =
     clause_helper ''autocomplete''
       (Autocomplete [(''query'', query), (''path'', path), (''token_order'', token_order),
          (''fuzzy'', fuzzy), (''score'', score)]) st self ty"

definition SearchBase_equals ::
  "store \<Rightarrow> ref \<Rightarrow> clause_type \<Rightarrow> pyval \<Rightarrow> pyval \<Rightarrow> pyval \<Rightarrow> error + (ref \<times> store)" where
  "SearchBase_equals st self ty path val score =
     clause_helper ''equals''
       (Equals [(''path'', path), (''value'', val), (''score'', score)]) st self ty"

definition SearchBase_exists ::
  "store \<Rightarrow> ref \<Rightarrow> clause_type \<Rightarrow> pyval \<Rightarrow> error + (ref \<times> store)" where
  "SearchBase_exists st self ty path =
     clause_helper ''exists'' (Exists [(''path'', path)]) st self ty"

definition SearchBase_range ::
  "store \<Rightarrow> ref \<Rightarrow> clause_type \<Rightarrow> pyval \<Rightarrow> pyval \<Rightarrow> pyval \<Rightarrow> pyval \<Rightarrow> pyval \<Rightarrow> pyval \<Rightarrow>
     error + (ref \<times> store)" where
  "SearchBase_range st self ty path gt lt gte lte score =
     clause_helper ''range''
       (Range [(''path'', path), (''gt'', gt), (''lt'', lt), (''gte'', gte), (''lte'', lte),
          (''score'', score)]) st self ty"

definition SearchBase_regex ::
  "store \<Rightarrow> ref \<Rightarrow> clause_type \<Rightarrow> pyval \<Rightarrow> pyval \<Rightarrow> pyval \<Rightarrow> pyval \<Rightarrow> error + (ref \<times> store)" where
  "SearchBase_regex st self ty query path allow_analyzed_field score =
     clause_helper ''regex''
       (Regex [(''query'', query), (''path'', path),
          (''allow_analyzed_field'', allow_analyzed_field), (''score'', score)]) st self ty"

definition SearchBase_text ::
  "store \<Rightarrow> ref \<Rightarrow> clause_type \<Rightarrow> pyval \<Rightarrow> pyval \<Rightarrow> pyval \<Rightarrow> pyval \<Rightarrow> pyval \<Rightarrow>
     error + (ref \<times> store)" where
  "SearchBase_text st self ty query path fuzzy score synonyms =
     clause_helper ''text''
       (Text [(''query'', query), (''path'', path), (''fuzzy'', fuzzy), (''score'', score),
          (''synonyms'', synonyms)]) st self ty"

definition SearchBase_wildcard ::
  "store \<Rightarrow> ref \<Rightarrow> clause_type \<Rightarrow> pyval \<Rightarrow> pyval \<Rightarrow> pyval \<Rightarrow> pyval \<Rightarrow> error + (ref \<times> store)" where
  "SearchBase_wildcard st self ty query path allow_analyzed_field score =
     clause_helper ''wildcard''
       (Wildcard [(''query'', query), (''path'', path),
          (''allow_analyzed_field'', allow_analyzed_field), (''score'', score)]) st self ty"

text \<open>
  The method \<^verbatim>\<open>compound\<close> has the same test, but returns what the operator's own
  \<^verbatim>\<open>compound\<close> method returned, not \<^verbatim>\<open>self\<close>.
\<close>

definition SearchBase_compound ::
  "store \<Rightarrow> ref \<Rightarrow> clause_type \<Rightarrow> ref list \<Rightarrow> ref list \<Rightarrow> ref list \<Rightarrow> ref list \<Rightarrow> int \<Rightarrow>
     error + (ref \<times> store)" where
  "SearchBase_compound st self ty must_arg must_not_arg should_arg filter_arg msm =
     (case current_operator st self of
        None \<Rightarrow> Inl (TypeError (Format ''Cannot call compound on '' None))
      | Some (c, op) \<Rightarrow>
          (if isinstance_Compound op then
             Inr (Compound_add st c ty (Compound must_arg must_not_arg should_arg filter_arg msm))
           else Inl (TypeError (Format ''Cannot call compound on '' (Some op)))))"




chapter \<open>Properties\<close>

section \<open>The pipeline\<close>

lemma export_loop_eq:
  "export_loop call sts out =
     (out @ map (\<lambda>s. fst (call s)) sts, map (\<lambda>s. snd (call s)) sts)"
  by (induction sts arbitrary: out) (simp_all split: prod.splits)

lemma export_eq:
  "export call self =
     (map (\<lambda>s. fst (call s)) (stages self),
      self\<lparr>stages := map (\<lambda>s. snd (call s)) (stages self)\<rparr>)"
  by (simp add: export_def export_loop_eq)

lemma stages_update_same: "(self\<lparr>stages := xs\<rparr> = self) = (xs = stages self)"
  by (cases self) auto

lemma map_same_conv: "(map f xs = xs) = (\<forall>x \<in> set xs. f x = x)"
  using map_eq_conv [of f xs id] by simp

text \<open>
  C1. Exporting a pipeline returns one document per stage, the i-th being what calling
  the i-th stage returns: the list is the stages' list mapped through the call, in the
  same order, with nothing merged or dropped. Calling the pipeline object in export
  mode returns the same list.
\<close>

theorem export_preserves_stage_order:
  "fst (export call self) = map (\<lambda>s. fst (call s)) (stages self) \<and>
   (on_call self = EXPORT \<longrightarrow>
      fst (Pipeline_call call aggregate self) = Inr (fst (export call self)))"
  by (simp add: export_eq Pipeline_call_def)

theorem export_preserves_stage_order_witness:
  "fst (export (\<lambda>s. (s, s))
      \<lparr>db = (Unset :: unit private_attr), on_call = EXPORT, collection = ''orders'',
       stages = [PDict [(''$match'', PDict [(''status'', PStr ''A'')])],
                 PDict [(''$sort'', PDict [(''total'', PInt (-1))])],
                 PDict [(''$limit'', PInt 5)]]\<rparr>)
     = [PDict [(''$match'', PDict [(''status'', PStr ''A'')])],
        PDict [(''$sort'', PDict [(''total'', PInt (-1))])],
        PDict [(''$limit'', PInt 5)]] \<and>
   fst (Pipeline_call (\<lambda>s. (s, s)) (\<lambda>d c sts. Inr sts)
      \<lparr>db = (Unset :: unit private_attr), on_call = EXPORT, collection = ''orders'',
       stages = [PDict [(''$match'', PDict [(''status'', PStr ''A'')])],
                 PDict [(''$sort'', PDict [(''total'', PInt (-1))])],
                 PDict [(''$limit'', PInt 5)]]\<rparr>)
     = Inr [PDict [(''$match'', PDict [(''status'', PStr ''A'')])],
        PDict [(''$sort'', PDict [(''total'', PInt (-1))])],
        PDict [(''$limit'', PInt 5)]]"
  using export_preserves_stage_order
    [of "\<lambda>s. (s, s)"
        "\<lparr>db = (Unset :: unit private_attr), on_call = EXPORT, collection = ''orders'',
          stages = [PDict [(''$match'', PDict [(''status'', PStr ''A'')])],
                    PDict [(''$sort'', PDict [(''total'', PInt (-1))])],
                    PDict [(''$limit'', PInt 5)]]\<rparr>"
        "\<lambda>d c sts. Inr sts"]
  by simp

text \<open>
  C8. The claim is that a pipeline in run mode fails when no database is configured
  and hands the exported list to the database when one is. The class docstring
  configures the database in the constructor, \<^verbatim>\<open>Pipeline(_db=db, collection=..., on_call="run")\<close>.
  The constructor ignores that keyword and leaves the private attribute unset, so
  calling such a pipeline raises \<^verbatim>\<open>AttributeError\<close> on reading \<^verbatim>\<open>self._db\<close> and the
  driver is never called. The call fails as well, with the message of \<^verbatim>\<open>run\<close>, once
  \<^verbatim>\<open>None\<close> has been assigned to the attribute; only after a database has been assigned
  to the attribute does the driver receive the exported list for the collection.
\<close>

theorem run_after_construction_raises:
  "map_sum id (\<lambda>p. fst (Pipeline_call call aggregate p))
       (construct_Pipeline (Given d) (Given RUN) (Given ''listingsAndReviews'') Missing)
     = Inr (Inl (AttributeError ''_db'')) \<and>
   construct_Pipeline db_arg (Given RUN) (Given c) (Given sts)
     = Inr \<lparr>db = Unset, on_call = RUN, collection = c, stages = sts\<rparr> \<and>
   fst (Pipeline_call call aggregate \<lparr>db = Unset, on_call = RUN, collection = c, stages = sts\<rparr>)
     = Inl (AttributeError ''_db'') \<and>
   fst (Pipeline_call call aggregate
          \<lparr>db = Assigned None, on_call = RUN, collection = c, stages = sts\<rparr>)
     = Inl (AttributeError ''run is not available when no database is provided'') \<and>
   fst (Pipeline_call call aggregate
          (assign_db (Some d) \<lparr>db = Unset, on_call = RUN, collection = c, stages = sts\<rparr>))
     = aggregate d c (map (\<lambda>s. fst (call s)) sts)"
  by (simp add: construct_Pipeline_def field_errors_def Pipeline_call_def run_def read_db_def
        export_eq assign_db_def)

text \<open>
  C9. Exporting changes the pipeline object exactly when calling one of its stages
  changes that stage, and exporting twice returns the same list exactly when calling
  each stage twice returns the same document: the method keeps no state of its own.
  For stages as the spec describes them, whose call returns the compiled document and
  leaves the stage as it is, the pipeline comes back unchanged and a second export
  returns the same list, the compiled documents of the stages in order.
\<close>

theorem export_idempotent:
  "(snd (export call self) = self) = (\<forall>s \<in> set (stages self). snd (call s) = s) \<and>
   (fst (export call (snd (export call self))) = fst (export call self))
     = (\<forall>s \<in> set (stages self). fst (call (snd (call s))) = fst (call s)) \<and>
   snd (export Stage_call pipe) = pipe \<and>
   export Stage_call (snd (export Stage_call pipe)) = export Stage_call pipe \<and>
   fst (export Stage_call pipe)
     = map (\<lambda>s. resolve (PDict [(wire_name s, body s)])) (stages pipe)"
proof (intro conjI)
  show "(snd (export call self) = self) = (\<forall>s \<in> set (stages self). snd (call s) = s)"
    by (simp add: export_eq stages_update_same map_same_conv)
  show "(fst (export call (snd (export call self))) = fst (export call self))
     = (\<forall>s \<in> set (stages self). fst (call (snd (call s))) = fst (call s))"
    by (simp add: export_eq comp_def)
  have "\<forall>s \<in> set (stages pipe). snd (Stage_call s) = s"
    by (simp add: Stage_call_def)
  then have "map (\<lambda>s. snd (Stage_call s)) (stages pipe) = stages pipe"
    by (simp add: map_same_conv)
  then show same: "snd (export Stage_call pipe) = pipe"
    by (simp add: export_eq)
  then show "export Stage_call (snd (export Stage_call pipe)) = export Stage_call pipe"
    by simp
  show "fst (export Stage_call pipe)
     = map (\<lambda>s. resolve (PDict [(wire_name s, body s)])) (stages pipe)"
    by (simp add: export_eq Stage_call_def)
qed

theorem export_idempotent_witness:
  "export Stage_call
      (snd (export Stage_call
        \<lparr>db = (Unset :: unit private_attr), on_call = EXPORT, collection = ''orders'',
         stages = [\<lparr>wire_name = ''$match'', body = PDict [(''status'', PStr ''A'')]\<rparr>,
                   \<lparr>wire_name = ''$limit'', body = PInt 5\<rparr>]\<rparr>))
     = ([PDict [(''$match'', PDict [(''status'', PStr ''A'')])], PDict [(''$limit'', PInt 5)]],
        \<lparr>db = (Unset :: unit private_attr), on_call = EXPORT, collection = ''orders'',
         stages = [\<lparr>wire_name = ''$match'', body = PDict [(''status'', PStr ''A'')]\<rparr>,
                   \<lparr>wire_name = ''$limit'', body = PInt 5\<rparr>]\<rparr>) \<and>
   fst (export (\<lambda>n. (PInt (int n), Suc n))
      (snd (export (\<lambda>n. (PInt (int n), Suc n))
        \<lparr>db = (Unset :: unit private_attr), on_call = EXPORT, collection = ''orders'',
         stages = [0, 7]\<rparr>)))
     \<noteq> fst (export (\<lambda>n. (PInt (int n), Suc n))
        \<lparr>db = (Unset :: unit private_attr), on_call = EXPORT, collection = ''orders'',
         stages = [0, 7]\<rparr>)"
  using export_idempotent
    [of "\<lambda>n. (PInt (int n), Suc n)"
        "\<lparr>db = (Unset :: unit private_attr), on_call = EXPORT, collection = ''orders'',
         stages = [0, 7]\<rparr>"
        "\<lparr>db = (Unset :: unit private_attr), on_call = EXPORT, collection = ''orders'',
         stages = [\<lparr>wire_name = ''$match'', body = PDict [(''status'', PStr ''A'')]\<rparr>,
                   \<lparr>wire_name = ''$limit'', body = PInt 5\<rparr>]\<rparr>"]
  by (simp add: export_eq Stage_call_def)

section \<open>The operators\<close>

text \<open>
  C5. The claim is that the statement of \<^verbatim>\<open>Last\<close> is keyed by the wire name of the
  operator, \<^verbatim>\<open>$last\<close>. The code keys it by \<^verbatim>\<open>$push\<close>: evaluated at
  \<^verbatim>\<open>Last(expression="$price")\<close>, the statement is \<^verbatim>\<open>{"$push": "$price"}\<close>, which is
  not the document the claim describes, and the only key of any \<^verbatim>\<open>Last\<close> statement is
  \<^verbatim>\<open>$push\<close>.
\<close>

theorem Last_statement_keyed_by_push:
  "map_sum id Last_statement (construct_Last (Some (PStr ''$price'')))
     = Inr (PDict [(''$push'', PStr ''$price'')]) \<and>
   map_sum id Last_statement (construct_Last (Some (PStr ''$price'')))
     \<noteq> Inr (PDict [(Last_wire_name, PStr ''$price'')]) \<and>
   dict_keys (Last_statement self) = [''$push'']"
  by (simp add: construct_Last_def Last_statement_def convert_expression_def
        Last_wire_name_def dict_keys_def)

lemma map_of_order:
  "distinct (map fst kws) \<Longrightarrow> distinct (map fst kws') \<Longrightarrow> set kws' = set kws \<Longrightarrow>
     map_of kws' = map_of kws"
  by (simp add: map_of_inject_set)

text \<open>
  C6. The array that \<^verbatim>\<open>IN\<close> compiles to holds the expression first and the array
  second, the order in which the class declares the two parameters. The order of the
  keyword arguments at the call site plays no part: two calls that bind the same
  keywords to the same values, in any order, build the same operator.
\<close>

theorem IN_statement_declared_order:
  "(distinct (map fst kws) \<and> distinct (map fst kws') \<and> set kws' = set kws \<longrightarrow>
      construct_IN kws' = construct_IN kws) \<and>
   IN_statement self = PDict [(''$in'', PList [in_op.expression self, in_op.array self])] \<and>
   map_sum id IN_statement (construct_IN [(''expression'', e), (''array'', a)])
     = Inr (PDict [(''$in'', PList [e, a])]) \<and>
   map_sum id IN_statement (construct_IN [(''array'', a), (''expression'', e)])
     = Inr (PDict [(''$in'', PList [e, a])])"
proof (intro conjI impI)
  assume "distinct (map fst kws) \<and> distinct (map fst kws') \<and> set kws' = set kws"
  then have "map_of kws' = map_of kws" by (simp add: map_of_order)
  then have "kwarg kws' = kwarg kws" by (intro ext) (simp only: kwarg_def)
  then show "construct_IN kws' = construct_IN kws"
    by (simp only: construct_IN_def)
qed (simp_all add: IN_statement_def construct_IN_def kwarg_def)

theorem IN_statement_declared_order_witness:
  "construct_IN [(''input'', PList [PInt 1, PInt 2]), (''n'', PStr ''$qty'')]
     = construct_IN [(''n'', PStr ''$qty''), (''input'', PList [PInt 1, PInt 2])] \<and>
   map_sum id IN_statement
       (construct_IN [(''input'', PList [PInt 1, PInt 2]), (''n'', PStr ''$qty'')])
     = Inr (PDict [(''$in'', PList [PStr ''$qty'', PList [PInt 1, PInt 2]])])"
proof -
  have "construct_IN [(''input'', PList [PInt 1, PInt 2]), (''n'', PStr ''$qty'')]
     = construct_IN [(''n'', PStr ''$qty''), (''input'', PList [PInt 1, PInt 2])]"
    using IN_statement_declared_order
      [of "[(''n'', PStr ''$qty''), (''input'', PList [PInt 1, PInt 2])]"
          "[(''input'', PList [PInt 1, PInt 2]), (''n'', PStr ''$qty'')]"]
    by auto
  then show ?thesis
    by (simp add: IN_statement_def construct_IN_def kwarg_def)
qed

section \<open>The stages\<close>

lemma resolve_raw: "raw v \<Longrightarrow> resolve v = v"
proof (induction v rule: raw.induct)
  case (1 xs)
  then show ?case by (simp add: list_all_iff map_idI)
next
  case (2 kvs)
  have "map (map_prod id resolve) kvs = kvs"
  proof (rule map_idI)
    fix kv assume "kv \<in> set kvs"
    with 2 have "resolve (snd kv) = snd kv" by (simp add: list_all_iff)
    then show "map_prod id resolve kv = kv" by (cases kv) simp
  qed
  then show ?case by simp
qed simp_all

lemma resolve_dict_keys: "dict_keys (resolve (PDict kvs)) = map fst kvs"
  by (simp add: dict_keys_def comp_def)

lemma compiled_output_eq:
  "compiled_output self =
     Some (resolve (case output_fields self of None \<Rightarrow> PNone | Some d \<Rightarrow> PDict d))"
  by (simp add: compiled_output_def BucketAuto_statement_def dict_get_def)

text \<open>
  C4. Where the field-path validator accepts the grouping expression and the number of
  buckets is positive, the stage constructed compiles to the single-key document
  \<^verbatim>\<open>{"$bucketAuto": {"groupBy": ..., "buckets": ..., "output": ..., "granularity": ...}}\<close>
  with the four keys in this order, \<^verbatim>\<open>None\<close> under \<^verbatim>\<open>output\<close> and \<^verbatim>\<open>granularity\<close> when
  they were left out. Built with \<^verbatim>\<open>buckets=5, by="$price"\<close> and nothing else this is
  \<^verbatim>\<open>{"$bucketAuto": {"groupBy": "$price", "buckets": 5, "output": None, "granularity": None}}\<close>.
  Constructed with an output mapping, the compiled output is that mapping resolved:
  it has exactly the mapping's keys, in their order, so no count field is added, and
  it is the mapping itself when the mapping holds no model instance.
\<close>

theorem BucketAuto_statement_shape:
  "(validate_field_path b = Inr b' \<and> 0 < n \<longrightarrow>
      map_sum id BucketAuto_statement
        (construct_BucketAuto validate_field_path (Some b) (Some n) out g)
      = Inr (PDict [(''$bucketAuto'', PDict [
               (''groupBy'', resolve b'),
               (''buckets'', PInt n),
               (''output'', (case out of None \<Rightarrow> PNone | Some d \<Rightarrow> resolve (PDict d))),
               (''granularity'',
                  (case g of None \<Rightarrow> PNone | Some x \<Rightarrow> PStr (GranularityEnum_value x)))])]) \<and>
      map_sum id compiled_output
        (construct_BucketAuto validate_field_path (Some b) (Some n) (Some d) g)
      = Inr (Some (resolve (PDict d)))) \<and>
   (validate_field_path (PStr ''$price'') = Inr (PStr ''$price'') \<longrightarrow>
      map_sum id BucketAuto_statement
        (construct_BucketAuto validate_field_path (Some (PStr ''$price'')) (Some 5) None None)
      = Inr (PDict [(''$bucketAuto'', PDict [
               (''groupBy'', PStr ''$price''), (''buckets'', PInt 5),
               (''output'', PNone), (''granularity'', PNone)])])) \<and>
   dict_keys (resolve (PDict d)) = map fst d \<and>
   (raw (PDict d) \<longrightarrow> resolve (PDict d) = PDict d)"
proof (intro conjI impI)
  assume a: "validate_field_path b = Inr b' \<and> 0 < n"
  then have c: "construct_BucketAuto validate_field_path (Some b) (Some n) x y
      = Inr \<lparr>group_by = b', buckets = n, output_fields = x, granularity = y\<rparr>" for x y
    by (simp add: construct_BucketAuto_def)
  show "map_sum id BucketAuto_statement
        (construct_BucketAuto validate_field_path (Some b) (Some n) out g)
      = Inr (PDict [(''$bucketAuto'', PDict [
               (''groupBy'', resolve b'),
               (''buckets'', PInt n),
               (''output'', (case out of None \<Rightarrow> PNone | Some d \<Rightarrow> resolve (PDict d))),
               (''granularity'',
                  (case g of None \<Rightarrow> PNone | Some x \<Rightarrow> PStr (GranularityEnum_value x)))])])"
    by (cases out; cases g) (simp_all add: c BucketAuto_statement_def)
  show "map_sum id compiled_output
        (construct_BucketAuto validate_field_path (Some b) (Some n) (Some d) g)
      = Inr (Some (resolve (PDict d)))"
    by (simp add: c compiled_output_eq)
next
  assume "validate_field_path (PStr ''$price'') = Inr (PStr ''$price'')"
  then show "map_sum id BucketAuto_statement
        (construct_BucketAuto validate_field_path (Some (PStr ''$price'')) (Some 5) None None)
      = Inr (PDict [(''$bucketAuto'', PDict [
               (''groupBy'', PStr ''$price''), (''buckets'', PInt 5),
               (''output'', PNone), (''granularity'', PNone)])])"
    by (simp add: construct_BucketAuto_def BucketAuto_statement_def)
next
  show "dict_keys (resolve (PDict d)) = map fst d"
    by (rule resolve_dict_keys)
next
  assume "raw (PDict d)"
  then show "resolve (PDict d) = PDict d" by (rule resolve_raw)
qed

theorem BucketAuto_statement_shape_witness:
  "map_sum id BucketAuto_statement
        (construct_BucketAuto Inr (Some (PStr ''$price'')) (Some 5) None None)
      = Inr (PDict [(''$bucketAuto'', PDict [
               (''groupBy'', PStr ''$price''), (''buckets'', PInt 5),
               (''output'', PNone), (''granularity'', PNone)])]) \<and>
   map_sum id BucketAuto_statement
        (construct_BucketAuto Inr (Some (PStr ''$price'')) (Some 5)
           (Some [(''avg'', PDict [(''$avg'', PStr ''$price'')])]) (Some R5))
      = Inr (PDict [(''$bucketAuto'', PDict [
               (''groupBy'', PStr ''$price''), (''buckets'', PInt 5),
               (''output'', PDict [(''avg'', PDict [(''$avg'', PStr ''$price'')])]),
               (''granularity'', PStr ''R5'')])]) \<and>
   map_sum id compiled_output
        (construct_BucketAuto Inr (Some (PStr ''$price'')) (Some 5)
           (Some [(''avg'', PDict [(''$avg'', PStr ''$price'')])]) (Some R5))
      = Inr (Some (PDict [(''avg'', PDict [(''$avg'', PStr ''$price'')])]))"
  using BucketAuto_statement_shape
    [of Inr "PStr ''$price''" "PStr ''$price''" 5
        "Some [(''avg'', PDict [(''$avg'', PStr ''$price'')])]" "Some R5"
        "[(''avg'', PDict [(''$avg'', PStr ''$price'')])]"]
    BucketAuto_statement_shape
    [of Inr "PStr ''$price''" "PStr ''$price''" 5 None None "[]"]
  by simp

text \<open>
  C3, as amended. Constructing a \<^verbatim>\<open>Lookup\<close> never looks at the stage kinds of the
  sub-pipeline: two constructions that differ only in the sub-pipeline supplied either
  both fail, with the same error, or both succeed, each storing the sub-pipeline it
  was given. This holds whatever the base class does and whatever the other arguments
  are.
\<close>

theorem Lookup_construction_ignores_stage_kinds:
  "map_sum id (\<lambda>x. x\<lparr>pipeline := p'\<rparr>)
       (construct_Lookup Stage_refuses a1 a2 a3 a4 a5 (Given p))
     = construct_Lookup Stage_refuses a1 a2 a3 a4 a5 (Given p')"
  by (cases Stage_refuses; cases a1; cases a2; cases a3; cases a4; cases a5)
     (simp_all add: construct_Lookup_def field_errors_def)

text \<open>
  The claim as stated fails, whichever way the base class behaves. Where the base class
  lets the construction through, a sub-pipeline whose second stage is \<^verbatim>\<open>$out\<close> is
  accepted. Where it refuses a subclass without a \<^verbatim>\<open>statement\<close>, a construction whose
  sub-pipeline holds no such stage fails too.
\<close>

theorem Lookup_accepts_forbidden_stage:
  "contains_forbidden_stage [[(''$match'', PDict [])], [(''$out'', PStr ''archive'')]] \<and>
   construct_Lookup None (Given ''X'') (Given ''a'') (Given ''b'') (Given ''out'') (Given [])
       (Given [[(''$match'', PDict [])], [(''$out'', PStr ''archive'')]])
     = Inr \<lparr>right = ''X'', left_on = ''a'', right_on = ''b'', name = ''out'', let_vars = [],
            pipeline = [[(''$match'', PDict [])], [(''$out'', PStr ''archive'')]]\<rparr> \<and>
   \<not> contains_forbidden_stage [[(''$match'', PDict [])]] \<and>
   construct_Lookup (Some abstract_statement) (Given ''X'') (Given ''a'') (Given ''b'')
       (Given ''out'') (Given []) (Given [[(''$match'', PDict [])]])
     = Inl abstract_statement"
  by (simp add: contains_forbidden_stage_def forbidden_stage_def construct_Lookup_def)


section \<open>The search stage\<close>

lemma deref_SomeD: "deref st r = Some ob \<Longrightarrow> r < length st \<and> st ! r = ob"
  by (simp add: deref_def split: if_splits)

lemma current_operatorD:
  assumes "current_operator st self = Some (c, op)"
  shows "\<exists>s. deref st self = Some (StageObj s) \<and> operator s = Some c \<and>
             deref st c = Some (OperatorObj op)"
  using assms
  by (auto simp: current_operator_def split: option.splits obj.splits)

lemma Compound_add_eq:
  assumes "deref st c = Some (OperatorObj op)"
  shows "Compound_add st c ty new_op =
           (length st,
            (st @ [OperatorObj new_op])[c := OperatorObj (register_clause ty (length st) op)])"
proof -
  from assms have c: "c < length st" "st ! c = OperatorObj op"
    by (simp_all add: deref_SomeD)
  then have "deref (st @ [OperatorObj new_op]) c = Some (OperatorObj op)"
    by (simp add: deref_def nth_append)
  then show ?thesis by (simp add: Compound_add_def alloc_def)
qed

text \<open>
  Adding a clause leaves the stage where it is and its operator the same object, now
  with the new operator's reference at the end of the clause list.
\<close>

lemma current_operator_after_add:
  assumes "current_operator st self = Some (c, op)"
  shows "current_operator (snd (Compound_add st c ty new_op)) self =
           Some (c, register_clause ty (length st) op)"
    and "deref (snd (Compound_add st c ty new_op)) (length st) = Some (OperatorObj new_op)"
    and "fst (Compound_add st c ty new_op) = length st"
proof -
  from current_operatorD [OF assms] obtain s where
    s: "deref st self = Some (StageObj s)" "operator s = Some c"
       "deref st c = Some (OperatorObj op)" by blast
  from s(1) have self: "self < length st" "st ! self = StageObj s"
    by (simp_all add: deref_SomeD)
  from s(3) have c: "c < length st" "st ! c = OperatorObj op"
    by (simp_all add: deref_SomeD)
  from self c have ne: "self \<noteq> c" by auto
  let ?st = "(st @ [OperatorObj new_op])[c := OperatorObj (register_clause ty (length st) op)]"
  have eq: "Compound_add st c ty new_op = (length st, ?st)"
    using s(3) by (rule Compound_add_eq)
  have "deref ?st self = Some (StageObj s)"
    using self ne by (simp add: deref_def nth_append)
  moreover have "deref ?st c = Some (OperatorObj (register_clause ty (length st) op))"
    using c by (simp add: deref_def)
  ultimately show "current_operator (snd (Compound_add st c ty new_op)) self =
           Some (c, register_clause ty (length st) op)"
    using s(2) by (simp add: eq current_operator_def)
  show "deref (snd (Compound_add st c ty new_op)) (length st) = Some (OperatorObj new_op)"
    using c by (simp add: eq deref_def)
  show "fst (Compound_add st c ty new_op) = length st" by (simp add: eq)
qed

lemma clause_helper_compound:
  assumes "current_operator st self = Some (c, op)" and "isinstance_Compound op"
  shows "clause_helper method new_op st self ty = Inr (self, snd (Compound_add st c ty new_op))"
  using assms by (simp add: clause_helper_def split: prod.splits)

lemma clause_helper_other:
  assumes "current_operator st self = Some (c, op)" and "\<not> isinstance_Compound op"
  shows "clause_helper method new_op st self ty =
           Inl (TypeError (Format (''Cannot call '' @ method @ '' on '') (Some op)))"
  using assms by (simp add: clause_helper_def)

lemma clause_helper_None:
  assumes "current_operator st self = None"
  shows "clause_helper method new_op st self ty =
           Inl (TypeError (Format (''Cannot call '' @ method @ '' on '') None))"
  using assms by (simp add: clause_helper_def)

lemma clause_helper_compound_effect:
  assumes "current_operator st self = Some (c, op)" and "isinstance_Compound op"
  shows "\<exists>st'. clause_helper method new_op st self ty = Inr (self, st') \<and>
           current_operator st' self = Some (c, register_clause ty (length st) op) \<and>
           deref st' (length st) = Some (OperatorObj new_op)"
  using clause_helper_compound [OF assms, of "method" "new_op" "ty"]
    current_operator_after_add(1,2) [OF assms(1), of "ty" "new_op"]
  by blast



lemma init_default:
  assumes "collector_value vals = None" and "operator_value vals = None"
  shows "init st vals =
           (vals\<lparr>operator_value := Some (Some (length st))\<rparr>,
            st @ [OperatorObj (Compound [] [] [] [] (init_minimum_should_match vals))])"
  using assms by (simp add: init_def has_key_def alloc_def)

lemmas search_eval =
  current_operator_def deref_def isinstance_Compound_def clause_helper_def Compound_add_def
  alloc_def register_clause_def

text \<open>
  C2. A search stage built with both a collector and an operator is refused: the
  validator raises "Only one of collector or operator can be provided", which the
  failed construction reports. Built with neither key, and with no \<^verbatim>\<open>None\<close> passed as
  the stage's own count, it is constructed, and its operator is a new compound
  operator with four empty clause lists whose minimum-should-match count is the one
  \<^verbatim>\<open>init\<close> computes: 0 when the caller gave none, the caller's count when the caller
  gave it under either spelling of the key.
\<close>

theorem SearchBase_collector_xor_operator:
  "(collector_value vals = Some (Some f) \<and> operator_value vals = Some (Some r) \<longrightarrow>
      (\<exists>ms. construct_SearchBase st vals =
         Inl (ValidationError
               (Literal ''Only one of collector or operator can be provided'' # ms)))) \<and>
   (collector_value vals = None \<and> operator_value vals = None \<and>
      minimum_should_match_value vals \<noteq> Some None \<longrightarrow>
      (\<exists>self st'. construct_SearchBase st vals = Inr (self, st') \<and>
         current_operator st' self =
           Some (length st, Compound [] [] [] [] (init_minimum_should_match vals)))) \<and>
   (minimum_should_match_value vals = None \<and> minimumShouldMatch_value vals = None \<longrightarrow>
      init_minimum_should_match vals = 0) \<and>
   (minimum_should_match_value vals = Some (Some n) \<and> minimumShouldMatch_value vals = None \<longrightarrow>
      init_minimum_should_match vals = n) \<and>
   (minimum_should_match_value vals = None \<and> minimumShouldMatch_value vals = Some (Some n) \<longrightarrow>
      init_minimum_should_match vals = n)"
proof (intro conjI impI)
  assume a: "collector_value vals = Some (Some f) \<and> operator_value vals = Some (Some r)"
  then have i: "init st vals = (vals, st)" by (simp add: init_def has_key_def)
  from a have v: "validate_operator (Some r) vals =
      Inl (TypeError (Literal ''Only one of collector or operator can be provided''))"
    by (simp add: validate_operator_def values_get_def)
  show "\<exists>ms. construct_SearchBase st vals =
         Inl (ValidationError
               (Literal ''Only one of collector or operator can be provided'' # ms))"
    by (cases "minimum_should_match_value vals"; cases "the (minimum_should_match_value vals)")
       (simp_all add: construct_SearchBase_def i v a reported_def values_get_def)
next
  assume a: "collector_value vals = None \<and> operator_value vals = None \<and>
      minimum_should_match_value vals \<noteq> Some None"
  let ?c = "Compound [] [] [] [] (init_minimum_should_match vals)"
  let ?vals = "vals\<lparr>operator_value := Some (Some (length st))\<rparr>"
  let ?st = "st @ [OperatorObj ?c]"
  from a have i: "init st vals = (?vals, ?st)" by (simp add: init_default)
  from a have v: "validate_operator (Some (length st)) ?vals = Inr (Some (length st))"
    by (simp add: validate_operator_def values_get_def)
  have d: "deref ?st (length st) = Some (OperatorObj ?c)" by (simp add: deref_def)
  from a obtain k where k:
    "(case minimum_should_match_value vals of
        None \<Rightarrow> Inr 0
      | Some None \<Rightarrow> Inl [Literal ''minimum_should_match: none is not an allowed value'']
      | Some (Some n) \<Rightarrow> Inr n) = (Inr k :: message list + int)"
    by (cases "minimum_should_match_value vals"; cases "the (minimum_should_match_value vals)")
       auto
  let ?stage = "search_config.extend (config_values vals)
                    (search_base.fields (values_get (collector_value vals)) (Some (length st)) k)"
  have c: "construct_SearchBase st vals = Inr (Suc (length st), ?st @ [StageObj ?stage])"
    using k by (simp add: construct_SearchBase_def i v d alloc_def values_get_def)
  have "operator ?stage = Some (length st)"
    by (simp add: search_config.defs search_base.defs)
  then have "current_operator (?st @ [StageObj ?stage]) (Suc (length st)) = Some (length st, ?c)"
    by (simp add: current_operator_def deref_def nth_append)
  with c show "\<exists>self st'. construct_SearchBase st vals = Inr (self, st') \<and>
         current_operator st' self = Some (length st, ?c)"
    by blast
qed (simp_all add: init_minimum_should_match_def py_or_def values_get_def)

theorem SearchBase_collector_xor_operator_witness:
  "construct_SearchBase [OperatorObj (Exists [(''path'', PStr ''title'')])]
      \<lparr>config_values = \<lparr>index = ''default'', count = None, highlight = None,
         return_stored_source = False, score_details = False\<rparr>,
       collector_value = Some (Some (Facet [])), operator_value = Some (Some 0),
       minimum_should_match_value = None, minimumShouldMatch_value = None\<rparr>
     = Inl (ValidationError [Literal ''Only one of collector or operator can be provided'']) \<and>
   construct_SearchBase []
      \<lparr>config_values = \<lparr>index = ''default'', count = None, highlight = None,
         return_stored_source = False, score_details = False\<rparr>,
       collector_value = None, operator_value = None,
       minimum_should_match_value = Some (Some 2), minimumShouldMatch_value = None\<rparr>
     = Inr (1,
        [OperatorObj (Compound [] [] [] [] 2),
         StageObj \<lparr>index = ''default'', count = None, highlight = None,
           return_stored_source = False, score_details = False,
           collector = None, operator = Some 0, minimum_should_match = 2\<rparr>])"
  using SearchBase_collector_xor_operator
    [of "\<lparr>config_values = \<lparr>index = ''default'', count = None, highlight = None,
         return_stored_source = False, score_details = False\<rparr>,
       collector_value = Some (Some (Facet [])), operator_value = Some (Some 0),
       minimum_should_match_value = None, minimumShouldMatch_value = None\<rparr>"
       "Facet []" 0 "[OperatorObj (Exists [(''path'', PStr ''title'')])]"]
  by (simp add: construct_SearchBase_def init_def has_key_def values_get_def
        validate_operator_def reported_def alloc_def deref_def
        init_minimum_should_match_def py_or_def search_config.defs search_base.defs)

text \<open>
  C7. On a search stage whose current operator is not a compound operator, each of the
  clause helpers (autocomplete, equals, exists, range, regex, text, wildcard), and
  \<^verbatim>\<open>compound\<close> as well, raises \<^verbatim>\<open>TypeError\<close> with the message
  \<^verbatim>\<open>f"Cannot call <method> on {self.operator}"\<close>, the interpolated object being that
  operator (or \<^verbatim>\<open>None\<close> when the stage has a collector and no operator). On a stage
  whose current operator is a compound operator each of the seven helpers returns the
  stage itself; the operator then has the new clause, built from the arguments of the
  call, at the end of the clause list named.
\<close>

theorem SearchBase_helpers_require_compound:
  "(current_operator st self = None \<longrightarrow>
      SearchBase_autocomplete st self ty query path token_order fuzzy score =
        Inl (TypeError (Format ''Cannot call autocomplete on '' None)) \<and>
      SearchBase_equals st self ty path val score =
        Inl (TypeError (Format ''Cannot call equals on '' None)) \<and>
      SearchBase_exists st self ty path =
        Inl (TypeError (Format ''Cannot call exists on '' None)) \<and>
      SearchBase_range st self ty path gt lt gte lte score =
        Inl (TypeError (Format ''Cannot call range on '' None)) \<and>
      SearchBase_regex st self ty query path allow_analyzed_field score =
        Inl (TypeError (Format ''Cannot call regex on '' None)) \<and>
      SearchBase_text st self ty query path fuzzy score synonyms =
        Inl (TypeError (Format ''Cannot call text on '' None)) \<and>
      SearchBase_wildcard st self ty query path allow_analyzed_field score =
        Inl (TypeError (Format ''Cannot call wildcard on '' None)) \<and>
      SearchBase_compound st self ty m mn s f k =
        Inl (TypeError (Format ''Cannot call compound on '' None))) \<and>
   (current_operator st self = Some (c, op) \<and> \<not> isinstance_Compound op \<longrightarrow>
      SearchBase_autocomplete st self ty query path token_order fuzzy score =
        Inl (TypeError (Format ''Cannot call autocomplete on '' (Some op))) \<and>
      SearchBase_equals st self ty path val score =
        Inl (TypeError (Format ''Cannot call equals on '' (Some op))) \<and>
      SearchBase_exists st self ty path =
        Inl (TypeError (Format ''Cannot call exists on '' (Some op))) \<and>
      SearchBase_range st self ty path gt lt gte lte score =
        Inl (TypeError (Format ''Cannot call range on '' (Some op))) \<and>
      SearchBase_regex st self ty query path allow_analyzed_field score =
        Inl (TypeError (Format ''Cannot call regex on '' (Some op))) \<and>
      SearchBase_text st self ty query path fuzzy score synonyms =
        Inl (TypeError (Format ''Cannot call text on '' (Some op))) \<and>
      SearchBase_wildcard st self ty query path allow_analyzed_field score =
        Inl (TypeError (Format ''Cannot call wildcard on '' (Some op))) \<and>
      SearchBase_compound st self ty m mn s f k =
        Inl (TypeError (Format ''Cannot call compound on '' (Some op)))) \<and>
   (current_operator st self = Some (c, op) \<and> isinstance_Compound op \<longrightarrow>
      (\<exists>st'. SearchBase_autocomplete st self ty query path token_order fuzzy score = Inr (self, st') \<and>
         current_operator st' self = Some (c, register_clause ty (length st) op) \<and>
         deref st' (length st) =
           Some (OperatorObj
             (Autocomplete [(''query'', query), (''path'', path), (''token_order'', token_order),
              (''fuzzy'', fuzzy), (''score'', score)]))) \<and>
      (\<exists>st'. SearchBase_equals st self ty path val score = Inr (self, st') \<and>
         current_operator st' self = Some (c, register_clause ty (length st) op) \<and>
         deref st' (length st) =
           Some (OperatorObj
             (Equals [(''path'', path), (''value'', val), (''score'', score)]))) \<and>
      (\<exists>st'. SearchBase_exists st self ty path = Inr (self, st') \<and>
         current_operator st' self = Some (c, register_clause ty (length st) op) \<and>
         deref st' (length st) =
           Some (OperatorObj
             (Exists [(''path'', path)]))) \<and>
      (\<exists>st'. SearchBase_range st self ty path gt lt gte lte score = Inr (self, st') \<and>
         current_operator st' self = Some (c, register_clause ty (length st) op) \<and>
         deref st' (length st) =
           Some (OperatorObj
             (Range [(''path'', path), (''gt'', gt), (''lt'', lt), (''gte'', gte), (''lte'', lte),
              (''score'', score)]))) \<and>
      (\<exists>st'. SearchBase_regex st self ty query path allow_analyzed_field score = Inr (self, st') \<and>
         current_operator st' self = Some (c, register_clause ty (length st) op) \<and>
         deref st' (length st) =
           Some (OperatorObj
             (Regex [(''query'', query), (''path'', path),
              (''allow_analyzed_field'', allow_analyzed_field), (''score'', score)]))) \<and>
      (\<exists>st'. SearchBase_text st self ty query path fuzzy score synonyms = Inr (self, st') \<and>
         current_operator st' self = Some (c, register_clause ty (length st) op) \<and>
         deref st' (length st) =
           Some (OperatorObj
             (Text [(''query'', query), (''path'', path), (''fuzzy'', fuzzy), (''score'', score),
              (''synonyms'', synonyms)]))) \<and>
      (\<exists>st'. SearchBase_wildcard st self ty query path allow_analyzed_field score = Inr (self, st') \<and>
         current_operator st' self = Some (c, register_clause ty (length st) op) \<and>
         deref st' (length st) =
           Some (OperatorObj
             (Wildcard [(''query'', query), (''path'', path),
              (''allow_analyzed_field'', allow_analyzed_field), (''score'', score)]))))"
proof (intro conjI impI)
  assume n: "current_operator st self = None"
  note h = clause_helper_None [OF n]
  show "SearchBase_autocomplete st self ty query path token_order fuzzy score =
        Inl (TypeError (Format ''Cannot call autocomplete on '' None))"
    by (simp add: SearchBase_autocomplete_def h)
  show "SearchBase_equals st self ty path val score =
        Inl (TypeError (Format ''Cannot call equals on '' None))"
    by (simp add: SearchBase_equals_def h)
  show "SearchBase_exists st self ty path =
        Inl (TypeError (Format ''Cannot call exists on '' None))"
    by (simp add: SearchBase_exists_def h)
  show "SearchBase_range st self ty path gt lt gte lte score =
        Inl (TypeError (Format ''Cannot call range on '' None))"
    by (simp add: SearchBase_range_def h)
  show "SearchBase_regex st self ty query path allow_analyzed_field score =
        Inl (TypeError (Format ''Cannot call regex on '' None))"
    by (simp add: SearchBase_regex_def h)
  show "SearchBase_text st self ty query path fuzzy score synonyms =
        Inl (TypeError (Format ''Cannot call text on '' None))"
    by (simp add: SearchBase_text_def h)
  show "SearchBase_wildcard st self ty query path allow_analyzed_field score =
        Inl (TypeError (Format ''Cannot call wildcard on '' None))"
    by (simp add: SearchBase_wildcard_def h)
  show "SearchBase_compound st self ty m mn s f k =
        Inl (TypeError (Format ''Cannot call compound on '' None))"
    by (simp add: SearchBase_compound_def n)
next
  assume a: "current_operator st self = Some (c, op) \<and> \<not> isinstance_Compound op"
  then have cur: "current_operator st self = Some (c, op)" and nc: "\<not> isinstance_Compound op"
    by simp_all
  note h = clause_helper_other [OF cur nc]
  show "SearchBase_autocomplete st self ty query path token_order fuzzy score =
        Inl (TypeError (Format ''Cannot call autocomplete on '' (Some op)))"
    by (simp add: SearchBase_autocomplete_def h)
  show "SearchBase_equals st self ty path val score =
        Inl (TypeError (Format ''Cannot call equals on '' (Some op)))"
    by (simp add: SearchBase_equals_def h)
  show "SearchBase_exists st self ty path =
        Inl (TypeError (Format ''Cannot call exists on '' (Some op)))"
    by (simp add: SearchBase_exists_def h)
  show "SearchBase_range st self ty path gt lt gte lte score =
        Inl (TypeError (Format ''Cannot call range on '' (Some op)))"
    by (simp add: SearchBase_range_def h)
  show "SearchBase_regex st self ty query path allow_analyzed_field score =
        Inl (TypeError (Format ''Cannot call regex on '' (Some op)))"
    by (simp add: SearchBase_regex_def h)
  show "SearchBase_text st self ty query path fuzzy score synonyms =
        Inl (TypeError (Format ''Cannot call text on '' (Some op)))"
    by (simp add: SearchBase_text_def h)
  show "SearchBase_wildcard st self ty query path allow_analyzed_field score =
        Inl (TypeError (Format ''Cannot call wildcard on '' (Some op)))"
    by (simp add: SearchBase_wildcard_def h)
  show "SearchBase_compound st self ty m mn s f k =
        Inl (TypeError (Format ''Cannot call compound on '' (Some op)))"
    by (simp add: SearchBase_compound_def cur nc)
next
  assume a: "current_operator st self = Some (c, op) \<and> isinstance_Compound op"
  then have cur: "current_operator st self = Some (c, op)" and comp: "isinstance_Compound op"
    by simp_all
  note h = clause_helper_compound_effect [OF cur comp]
  show "\<exists>st'. SearchBase_autocomplete st self ty query path token_order fuzzy score = Inr (self, st') \<and>
         current_operator st' self = Some (c, register_clause ty (length st) op) \<and>
         deref st' (length st) =
           Some (OperatorObj
             (Autocomplete [(''query'', query), (''path'', path), (''token_order'', token_order),
              (''fuzzy'', fuzzy), (''score'', score)]))"
    unfolding SearchBase_autocomplete_def by (rule h)
  show "\<exists>st'. SearchBase_equals st self ty path val score = Inr (self, st') \<and>
         current_operator st' self = Some (c, register_clause ty (length st) op) \<and>
         deref st' (length st) =
           Some (OperatorObj
             (Equals [(''path'', path), (''value'', val), (''score'', score)]))"
    unfolding SearchBase_equals_def by (rule h)
  show "\<exists>st'. SearchBase_exists st self ty path = Inr (self, st') \<and>
         current_operator st' self = Some (c, register_clause ty (length st) op) \<and>
         deref st' (length st) =
           Some (OperatorObj
             (Exists [(''path'', path)]))"
    unfolding SearchBase_exists_def by (rule h)
  show "\<exists>st'. SearchBase_range st self ty path gt lt gte lte score = Inr (self, st') \<and>
         current_operator st' self = Some (c, register_clause ty (length st) op) \<and>
         deref st' (length st) =
           Some (OperatorObj
             (Range [(''path'', path), (''gt'', gt), (''lt'', lt), (''gte'', gte), (''lte'', lte),
              (''score'', score)]))"
    unfolding SearchBase_range_def by (rule h)
  show "\<exists>st'. SearchBase_regex st self ty query path allow_analyzed_field score = Inr (self, st') \<and>
         current_operator st' self = Some (c, register_clause ty (length st) op) \<and>
         deref st' (length st) =
           Some (OperatorObj
             (Regex [(''query'', query), (''path'', path),
              (''allow_analyzed_field'', allow_analyzed_field), (''score'', score)]))"
    unfolding SearchBase_regex_def by (rule h)
  show "\<exists>st'. SearchBase_text st self ty query path fuzzy score synonyms = Inr (self, st') \<and>
         current_operator st' self = Some (c, register_clause ty (length st) op) \<and>
         deref st' (length st) =
           Some (OperatorObj
             (Text [(''query'', query), (''path'', path), (''fuzzy'', fuzzy), (''score'', score),
              (''synonyms'', synonyms)]))"
    unfolding SearchBase_text_def by (rule h)
  show "\<exists>st'. SearchBase_wildcard st self ty query path allow_analyzed_field score = Inr (self, st') \<and>
         current_operator st' self = Some (c, register_clause ty (length st) op) \<and>
         deref st' (length st) =
           Some (OperatorObj
             (Wildcard [(''query'', query), (''path'', path),
              (''allow_analyzed_field'', allow_analyzed_field), (''score'', score)]))"
    unfolding SearchBase_wildcard_def by (rule h)
qed

theorem SearchBase_helpers_require_compound_witness:
  "SearchBase_equals
      [OperatorObj (Text [(''query'', PStr ''guitar''), (''path'', PStr ''title'')]),
       StageObj \<lparr>index = ''default'', count = None, highlight = None,
         return_stored_source = False, score_details = False,
         collector = None, operator = Some 0, minimum_should_match = 0\<rparr>]
      1 Filter (PStr ''in_stock'') (PBool True) PNone
     = Inl (TypeError (Format ''Cannot call equals on ''
         (Some (Text [(''query'', PStr ''guitar''), (''path'', PStr ''title'')])))) \<and>
   SearchBase_wildcard
      [OperatorObj (Text [(''query'', PStr ''guitar''), (''path'', PStr ''title'')]),
       StageObj \<lparr>index = ''default'', count = None, highlight = None,
         return_stored_source = False, score_details = False,
         collector = None, operator = Some 0, minimum_should_match = 0\<rparr>]
      1 Filter (PStr ''gib*'') (PStr ''brand'') (PBool False) PNone
     = Inl (TypeError (Format ''Cannot call wildcard on ''
         (Some (Text [(''query'', PStr ''guitar''), (''path'', PStr ''title'')])))) \<and>
   SearchBase_exists
      [StageObj \<lparr>index = ''default'', count = None, highlight = None,
         return_stored_source = False, score_details = False,
         collector = Some (Facet []), operator = None, minimum_should_match = 0\<rparr>]
      0 Must (PStr ''title'')
     = Inl (TypeError (Format ''Cannot call exists on '' None)) \<and>
   SearchBase_equals
      [OperatorObj (Compound [] [] [] [] 0),
       StageObj \<lparr>index = ''default'', count = None, highlight = None,
         return_stored_source = False, score_details = False,
         collector = None, operator = Some 0, minimum_should_match = 0\<rparr>]
      1 Filter (PStr ''in_stock'') (PBool True) PNone
     = Inr (1,
        [OperatorObj (Compound [] [] [] [2] 0),
         StageObj \<lparr>index = ''default'', count = None, highlight = None,
           return_stored_source = False, score_details = False,
           collector = None, operator = Some 0, minimum_should_match = 0\<rparr>,
         OperatorObj (Equals [(''path'', PStr ''in_stock''), (''value'', PBool True),
           (''score'', PNone)])])"
  using SearchBase_helpers_require_compound
    [where st = "[OperatorObj (Text [(''query'', PStr ''guitar''), (''path'', PStr ''title'')]),
       StageObj \<lparr>index = ''default'', count = None, highlight = None,
         return_stored_source = False, score_details = False,
         collector = None, operator = Some 0, minimum_should_match = 0\<rparr>]"
       and self = 1 and c = 0
       and op = "Text [(''query'', PStr ''guitar''), (''path'', PStr ''title'')]"
       and ty = Filter and path = "PStr ''in_stock''" and val = "PBool True" and score = PNone]
  by (simp add: SearchBase_equals_def SearchBase_wildcard_def SearchBase_exists_def search_eval)



end
